theory Spec2Isabelle
  imports Complex_Main "HOL-Library.AList" "HOL-Library.Multiset"
begin

section \<open>Data model of the area boundary converter (src/main.py)\<close>

text \<open>
  Python floats are read as real numbers throughout: rounding, infinities and NaN are
  not part of this model. Everything else follows the class
  \<^verbatim>\<open>AreaBoundaryProcessor\<close> and the function \<^verbatim>\<open>automate_function\<close>.
\<close>

text \<open>The exceptions the modelled code can raise.\<close>

datatype pyerror = ZeroDivisionError | TypeError

text \<open>A \<^verbatim>\<open>Point\<close> with its attributes \<^verbatim>\<open>x\<close>, \<^verbatim>\<open>y\<close>, \<^verbatim>\<open>z\<close>.\<close>

datatype point = Point (px: real) (py: real) (pz: real)

text \<open>
  A \<^verbatim>\<open>Base\<close> object, as far as the processor looks at it: its \<^verbatim>\<open>speckle_type\<close> and
  the geometry attributes that \<^verbatim>\<open>get_curve_points\<close> probes with \<^verbatim>\<open>hasattr\<close>.
  An absent attribute is \<open>None\<close>.
\<close>

record base =
  speckle_type :: "string option"
  attr_start :: "point option"
  attr_end :: "point option"
  attr_points :: "point list option"
  attr_controlPoints :: "point list option"

text \<open>
  The values an attribute of a boundary or of a mesh can hold. A dictionary and the
  attributes of an object are association lists in insertion order, written to with
  \<open>AList.update\<close> (an existing key keeps its place, a new key goes to the end).
\<close>

datatype pyval =
    VNone
  | VNum real
  | VInt int
  | VStr string
  | VList "pyval list"
  | VDict "(string \<times> pyval) list"
  | VBase base

type_synonym pyobject = "(string \<times> pyval) list"

definition setattr :: "pyobject \<Rightarrow> string \<Rightarrow> pyval \<Rightarrow> pyobject" where
  "setattr obj name v = AList.update name v obj"

section \<open>Vectors\<close>

type_synonym vec3 = "real \<times> real \<times> real"

definition vsub :: "point \<Rightarrow> point \<Rightarrow> vec3" where
  "vsub p q = (px p - px q, py p - py q, pz p - pz q)"

fun cross :: "vec3 \<Rightarrow> vec3 \<Rightarrow> vec3" where
  "cross (a0, a1, a2) (b0, b1, b2) =
     (a1 * b2 - a2 * b1, a2 * b0 - a0 * b2, a0 * b1 - a1 * b0)"

fun dot :: "vec3 \<Rightarrow> vec3 \<Rightarrow> real" where
  "dot (a0, a1, a2) (b0, b1, b2) = a0 * b0 + a1 * b1 + a2 * b2"

definition vlength :: "vec3 \<Rightarrow> real" where
  "vlength v = sqrt (dot v v)"

fun vscale_div :: "vec3 \<Rightarrow> real \<Rightarrow> vec3" where
  "vscale_div (a0, a1, a2) l = (a0 / l, a1 / l, a2 / l)"

section \<open>Planarity\<close>

text \<open>
  \<^verbatim>\<open>get_curve_points\<close>: a line-like object gives its start and end, a polyline-like one
  its points, a NURBS curve its control points, anything else nothing.
\<close>

definition get_curve_points :: "base \<Rightarrow> point list" where
  "get_curve_points curve =
     (case (attr_start curve, attr_end curve) of
        (Some s, Some e) \<Rightarrow> [s, e]
      | _ \<Rightarrow>
        (case attr_points curve of
           Some ps \<Rightarrow> ps
         | None \<Rightarrow>
           (case attr_controlPoints curve of
              Some cps \<Rightarrow> cps
            | None \<Rightarrow> [])))"

text \<open>The normal of the plane through the first three points, before normalisation.\<close>

definition plane_normal :: "point list \<Rightarrow> vec3" where
  "plane_normal points =
     cross (vsub (points ! 1) (points ! 0)) (vsub (points ! 2) (points ! 0))"

text \<open>
  The distance of a point to the plane through \<open>p1\<close> with unit normal \<open>normal\<close>:
  \<^verbatim>\<open>abs(sum(to_point[i] * normal[i] for i in range(3)))\<close>.
\<close>

definition plane_distance :: "point \<Rightarrow> vec3 \<Rightarrow> point \<Rightarrow> real" where
  "plane_distance p1 normal p = \<bar>dot (vsub p p1) normal\<bar>"

text \<open>
  The loop over \<^verbatim>\<open>points[3:]\<close>: it returns False at the first point farther from the
  plane than the tolerance.
\<close>

fun all_within :: "real \<Rightarrow> point \<Rightarrow> vec3 \<Rightarrow> point list \<Rightarrow> bool" where
  "all_within tolerance p1 normal [] = True"
| "all_within tolerance p1 normal (p # ps) =
     (if plane_distance p1 normal p > tolerance then False
      else all_within tolerance p1 normal ps)"

text \<open>
  \<^verbatim>\<open>points_are_coplanar\<close>. The division by \<^verbatim>\<open>normal_length\<close> raises
  \<^verbatim>\<open>ZeroDivisionError\<close> when the length is zero, which the degenerate-case test lets
  through only for a tolerance that is not positive.
\<close>

definition points_are_coplanar :: "real \<Rightarrow> point list \<Rightarrow> pyerror + bool" where
  "points_are_coplanar tolerance points =
     (if length points < 4 then Inr True
      else
        let normal = plane_normal points;
            normal_length = vlength normal
        in if normal_length < tolerance then Inr True
           else if normal_length = 0 then Inl ZeroDivisionError
           else Inr (all_within tolerance (points ! 0)
                       (vscale_div normal normal_length) (drop 3 points)))"

text \<open>\<^verbatim>\<open>curves_are_coplanar\<close>: the gate of the pipeline.\<close>

definition curves_are_coplanar :: "real \<Rightarrow> base list \<Rightarrow> pyerror + bool" where
  "curves_are_coplanar tolerance curves =
     (if length curves < 2 then Inr True
      else
        let points = concat (map get_curve_points curves)
        in if length points < 3 then Inr True
           else points_are_coplanar tolerance points)"

section \<open>Curve extraction\<close>

text \<open>Python's \<^verbatim>\<open>needle in haystack\<close> on strings.\<close>

fun starts_with :: "string \<Rightarrow> string \<Rightarrow> bool" where
  "starts_with [] hay = True"
| "starts_with (c # cs) [] = False"
| "starts_with (c # cs) (d # ds) = (c = d \<and> starts_with cs ds)"

fun str_contains :: "string \<Rightarrow> string \<Rightarrow> bool" where
  "str_contains needle [] = (needle = [])"
| "str_contains needle (d # ds) = (starts_with needle (d # ds) \<or> str_contains needle ds)"

definition curve_types :: "string list" where
  "curve_types = [''Line'', ''Polyline'', ''Curve'', ''Arc'', ''Circle'', ''Ellipse'']"

text \<open>\<^verbatim>\<open>str(getattr(obj, "speckle_type", ""))\<close>\<close>

definition type_string :: "base \<Rightarrow> string" where
  "type_string obj = (case speckle_type obj of None \<Rightarrow> [] | Some s \<Rightarrow> s)"

text \<open>\<^verbatim>\<open>is_curve\<close>: only a \<^verbatim>\<open>Base\<close> object can be a curve.\<close>

fun is_curve :: "pyval \<Rightarrow> bool" where
  "is_curve (VBase obj) = list_ex (\<lambda>curve_type. str_contains curve_type (type_string obj)) curve_types"
| "is_curve v = False"

definition possible_curve_attrs :: "string list" where
  "possible_curve_attrs = [''curves'', ''outline'', ''boundary'', ''geometry'', ''displayValue'']"

text \<open>The curve objects among some values: \<^verbatim>\<open>[c for c in attr_value if self.is_curve(c)]\<close>.\<close>

fun curve_of :: "pyval \<Rightarrow> base option" where
  "curve_of (VBase obj) = (if is_curve (VBase obj) then Some obj else None)"
| "curve_of v = None"

text \<open>What one attribute value contributes: a list is filtered, a single curve is taken.\<close>

fun curves_of_attr :: "pyval \<Rightarrow> base list" where
  "curves_of_attr (VList vs) = List.map_filter curve_of vs"
| "curves_of_attr v = (case curve_of v of Some obj \<Rightarrow> [obj] | None \<Rightarrow> [])"

definition extract_curves_from_boundary :: "pyobject \<Rightarrow> base list" where
  "extract_curves_from_boundary boundary =
     concat (map (\<lambda>attr_name.
                    case map_of boundary attr_name of
                      None \<Rightarrow> []
                    | Some attr_value \<Rightarrow> curves_of_attr attr_value)
                 possible_curve_attrs)"

section \<open>Loop grouping\<close>

text \<open>
  \<^verbatim>\<open>group_curves_into_loops\<close>: the source assumes that all curves form one loop and does
  no connectivity analysis.
\<close>

definition group_curves_into_loops :: "base list \<Rightarrow> base list list" where
  "group_curves_into_loops curves = (if curves = [] then [] else [curves])"

section \<open>Tessellation\<close>

text \<open>The vertex list: the coordinates of the points, three per point.\<close>

definition mesh_vertices :: "point list \<Rightarrow> real list" where
  "mesh_vertices points = concat (map (\<lambda>p. [px p, py p, pz p]) points)"

text \<open>
  The face list for \<open>n\<close> points: the fan \<^verbatim>\<open>[0, i, i + 1]\<close> for \<^verbatim>\<open>i in range(1, n - 1)\<close>.
\<close>

definition mesh_faces :: "nat \<Rightarrow> int list" where
  "mesh_faces n =
     (if n \<ge> 3 then concat (map (\<lambda>i. [0, int i, int i + 1]) [1 ..< n - 1]) else [])"

text \<open>\<^verbatim>\<open>Mesh(vertices=vertices, faces=faces)\<close>\<close>

definition Mesh :: "real list \<Rightarrow> int list \<Rightarrow> pyobject" where
  "Mesh vertices faces =
     [(''vertices'', VList (map VNum vertices)), (''faces'', VList (map VInt faces))]"

definition create_mesh_from_points :: "point list \<Rightarrow> pyobject" where
  "create_mesh_from_points points = Mesh (mesh_vertices points) (mesh_faces (length points))"

section \<open>Metadata\<close>

definition preserve_attrs :: "string list" where
  "preserve_attrs =
     [''area'', ''perimeter'', ''name'', ''number'', ''level'', ''roomNumber'', ''roomName'',
      ''department'', ''occupancy'', ''parameters'', ''properties'', ''units'']"

text \<open>\<^verbatim>\<open>metadata.update(d)\<close> on a dictionary: one assignment per item.\<close>

definition dict_update :: "(string \<times> pyval) list \<Rightarrow> (string \<times> pyval) list \<Rightarrow> (string \<times> pyval) list" where
  "dict_update metadata d = foldl (\<lambda>md (k, v). AList.update k v md) metadata d"

definition extract_metadata :: "pyobject \<Rightarrow> (string \<times> pyval) list" where
  "extract_metadata boundary =
     (let metadata =
            foldl (\<lambda>md attr. case map_of boundary attr of
                                None \<Rightarrow> md
                              | Some v \<Rightarrow> AList.update attr v md)
                  [] preserve_attrs
      in case map_of boundary ''parameters'' of
           Some (VDict d) \<Rightarrow> dict_update metadata d
         | _ \<Rightarrow> metadata)"

text \<open>
  The transfer loop of \<^verbatim>\<open>create_surface_from_curves\<close>:
  \<^verbatim>\<open>for key, value in metadata.items(): setattr(mesh, key, value)\<close>.
\<close>

definition transfer_metadata :: "(string \<times> pyval) list \<Rightarrow> pyobject \<Rightarrow> pyobject" where
  "transfer_metadata metadata mesh = foldl (\<lambda>m (key, v). setattr m key v) mesh metadata"

text \<open>\<^verbatim>\<open>create_surface_from_curves\<close>; \<open>None\<close> is Python's \<^verbatim>\<open>None\<close>.\<close>

definition create_surface_from_curves :: "base list \<Rightarrow> (string \<times> pyval) list \<Rightarrow> pyobject option" where
  "create_surface_from_curves curves metadata =
     (let all_points = concat (map get_curve_points curves)
      in if length all_points < 3 then None
         else
           let mesh = create_mesh_from_points all_points;
               mesh = transfer_metadata metadata mesh;
               mesh = setattr mesh ''speckle_type'' (VStr ''Objects.Geometry.Mesh'');
               mesh = setattr mesh ''converted_from'' (VStr ''AreaBoundary'')
           in Some mesh)"

section \<open>The pipeline\<close>

record function_inputs =
  surface_tolerance :: real
  preserve_original :: bool
  merge_holes :: bool
  min_area_threshold :: real

text \<open>
  An entry of \<^verbatim>\<open>failed_conversions\<close>: the index of the boundary and the reason. The
  constructors stand for the texts \<^verbatim>\<open>"Boundary i: No curves found"\<close>,
  \<^verbatim>\<open>"Boundary i: Curves not coplanar"\<close> and \<^verbatim>\<open>"Boundary i: " + str(e)\<close>.
\<close>

datatype failure = NoCurvesFound nat | CurvesNotCoplanar nat | Raised nat pyerror

record conversion_state =
  converted_surfaces :: "pyobject list"
  failed_conversions :: "failure list"

text \<open>
  The test \<^verbatim>\<open>"area" in metadata and metadata["area"] < min_area_threshold\<close>. Comparing a
  value that is not a number with a float raises \<^verbatim>\<open>TypeError\<close>.
\<close>

definition area_below_threshold :: "(string \<times> pyval) list \<Rightarrow> real \<Rightarrow> pyerror + bool" where
  "area_below_threshold metadata threshold =
     (case map_of metadata ''area'' of
        None \<Rightarrow> Inr False
      | Some (VNum a) \<Rightarrow> Inr (a < threshold)
      | Some (VInt n) \<Rightarrow> Inr (real_of_int n < threshold)
      | Some _ \<Rightarrow> Inl TypeError)"

text \<open>
  The loop \<^verbatim>\<open>for loop in curve_loops\<close>: a surface that is not \<^verbatim>\<open>None\<close> is appended,
  a \<^verbatim>\<open>None\<close> is passed over.
\<close>

fun convert_loops :: "base list list \<Rightarrow> (string \<times> pyval) list \<Rightarrow> pyobject list \<Rightarrow> pyobject list" where
  "convert_loops [] metadata converted = converted"
| "convert_loops (loop # loops) metadata converted =
     (case create_surface_from_curves loop metadata of
        Some surface \<Rightarrow> convert_loops loops metadata (converted @ [surface])
      | None \<Rightarrow> convert_loops loops metadata converted)"

text \<open>
  The body of the loop over the boundaries, with its \<^verbatim>\<open>try\<close>/\<^verbatim>\<open>except Exception\<close>: an
  exception becomes a failure entry and the loop goes on.
\<close>

definition process_boundary :: "function_inputs \<Rightarrow> nat \<Rightarrow> pyobject \<Rightarrow> conversion_state \<Rightarrow> conversion_state" where
  "process_boundary function_inputs i boundary st =
     (let curves = extract_curves_from_boundary boundary
      in if curves = [] then
           st\<lparr>failed_conversions := failed_conversions st @ [NoCurvesFound i]\<rparr>
         else
           case curves_are_coplanar (surface_tolerance function_inputs) curves of
             Inl e \<Rightarrow> st\<lparr>failed_conversions := failed_conversions st @ [Raised i e]\<rparr>
           | Inr False \<Rightarrow>
               st\<lparr>failed_conversions := failed_conversions st @ [CurvesNotCoplanar i]\<rparr>
           | Inr True \<Rightarrow>
               (let metadata = extract_metadata boundary
                in (case area_below_threshold metadata (min_area_threshold function_inputs) of
                      Inl e \<Rightarrow> st\<lparr>failed_conversions := failed_conversions st @ [Raised i e]\<rparr>
                    | Inr True \<Rightarrow> st
                    | Inr False \<Rightarrow>
                        st\<lparr>converted_surfaces :=
                             convert_loops (group_curves_into_loops curves) metadata
                               (converted_surfaces st)\<rparr>)))"

text \<open>
  \<^verbatim>\<open>automate_function\<close>, from the list of boundaries on: the two lists it builds. Receiving
  the version, publishing the result and the messages on the context are left out.
\<close>

definition automate_function :: "function_inputs \<Rightarrow> pyobject list \<Rightarrow> conversion_state" where
  "automate_function function_inputs boundaries =
     foldl (\<lambda>st (i, boundary). process_boundary function_inputs i boundary st)
           \<lparr>converted_surfaces = [], failed_conversions = []\<rparr>
           (enumerate 0 boundaries)"

section \<open>Reading a mesh back\<close>








section \<open>Notions of the specification\<close>






text \<open>
  A chain of curves is closed when its free end is back at its start within the
  tolerance: the last pooled point against the first.
\<close>

definition chain_closed :: "real \<Rightarrow> base list \<Rightarrow> bool" where
  "chain_closed tolerance curves =
     (let points = concat (map get_curve_points curves)
      in points \<noteq> [] \<and> vlength (vsub (last points) (hd points)) \<le> tolerance)"

text \<open>
  The kind of an object as its type string declares it: the last component of the dotted
  name. The six curve kinds as the specification names them.
\<close>

definition declared_kind :: "string \<Rightarrow> string" where
  "declared_kind type_name = rev (takeWhile (\<lambda>c. c \<noteq> CHR ''.'') (rev type_name))"

definition spec_curve_kinds :: "string list" where
  "spec_curve_kinds = [''Line'', ''Polyline'', ''GenericCurve'', ''Arc'', ''Circle'', ''Ellipse'']"

text \<open>A loop as a point set, whatever the order and direction of its curves.\<close>

definition loop_point_set :: "base list \<Rightarrow> point set" where
  "loop_point_set loop = set (concat (map get_curve_points loop))"

section \<open>Inputs used as examples\<close>

text \<open>The defaults of \<^verbatim>\<open>FunctionInputs\<close>.\<close>

definition default_inputs :: function_inputs where
  "default_inputs =
     \<lparr>surface_tolerance = 1 / 100, preserve_original = True, merge_holes = True,
      min_area_threshold = 1 / 10\<rparr>"

definition Line :: "point \<Rightarrow> point \<Rightarrow> base" where
  "Line s e =
     \<lparr>speckle_type = Some ''Objects.Geometry.Line'', attr_start = Some s, attr_end = Some e,
      attr_points = None, attr_controlPoints = None\<rparr>"

definition Polyline :: "point list \<Rightarrow> base" where
  "Polyline ps =
     \<lparr>speckle_type = Some ''Objects.Geometry.Polyline'', attr_start = None, attr_end = None,
      attr_points = Some ps, attr_controlPoints = None\<rparr>"

definition point_object :: base where
  "point_object =
     \<lparr>speckle_type = Some ''Objects.Geometry.Point'', attr_start = None, attr_end = None,
      attr_points = None, attr_controlPoints = None\<rparr>"

definition initial_state :: conversion_state where
  "initial_state = \<lparr>converted_surfaces = [], failed_conversions = []\<rparr>"

text \<open>The square of the repository's test, and the same with its last corner lifted.\<close>

definition square_points :: "point list" where
  "square_points = [Point 0 0 0, Point 1 0 0, Point 1 1 0, Point 0 1 0]"

definition lifted_points :: "point list" where
  "lifted_points = [Point 0 0 0, Point 1 0 0, Point 1 1 0, Point 0 1 1]"

text \<open>Three sides of the unit square: a chain that does not close.\<close>

definition open_chain :: "base list" where
  "open_chain =
     [Line (Point 0 0 0) (Point 1 0 0), Line (Point 1 0 0) (Point 1 1 0),
      Line (Point 1 1 0) (Point 0 1 0)]"

definition open_boundary :: pyobject where
  "open_boundary = [(''curves'', VList (map VBase open_chain))]"


text \<open>A polyline of three coinciding points, and a boundary of one single line.\<close>

definition collapsed_polyline :: base where
  "collapsed_polyline = Polyline [Point 0 0 0, Point 0 0 0, Point 0 0 0]"

definition one_line_boundary :: pyobject where
  "one_line_boundary = [(''curves'', VList [VBase (Line (Point 0 0 0) (Point 1 0 0))])]"

text \<open>Two boundaries of area 0.05: one without any curve, one with the square as outline.\<close>

definition small_empty_boundary :: pyobject where
  "small_empty_boundary = [(''area'', VNum (5 / 100))]"

definition small_square_boundary :: pyobject where
  "small_square_boundary =
     [(''area'', VNum (5 / 100)), (''outline'', VBase (Polyline square_points))]"

text \<open>A boundary with a line, a point and a string among its curves.\<close>

definition mixed_boundary :: pyobject where
  "mixed_boundary =
     [(''curves'', VList [VBase (Line (Point 0 0 0) (Point 1 0 0)), VBase point_object,
                          VStr ''Line''])]"

text \<open>A grid line, which is no curve, as the only entry of a boundary's curve list.\<close>

definition grid_line :: base where
  "grid_line =
     \<lparr>speckle_type = Some ''Objects.BuiltElements.GridLine'', attr_start = None, attr_end = None,
      attr_points = None, attr_controlPoints = None\<rparr>"

definition grid_boundary :: pyobject where
  "grid_boundary = [(''curves'', VList [VBase grid_line])]"

text \<open>The boundary of the repository's \<^verbatim>\<open>test_metadata_extraction\<close>.\<close>

definition test_boundary :: pyobject where
  "test_boundary =
     [(''area'', VNum (201 / 2)), (''name'', VStr ''Test Area''), (''number'', VStr ''001''),
      (''level'', VStr ''Level 1'')]"

text \<open>A boundary with metadata, one of its parameters named like a standard attribute.\<close>

definition room_boundary :: pyobject where
  "room_boundary =
     [(''area'', VNum 100), (''name'', VStr ''Test Area''),
      (''parameters'', VDict [(''name'', VStr ''Lobby''), (''fire'', VInt 2)])]"

section \<open>Facts about the model\<close>


lemma is_curve_Line: "is_curve (VBase (Line s e))"
  by (simp add: Line_def type_string_def curve_types_def)

lemma is_curve_Polyline: "is_curve (VBase (Polyline ps))"
  by (simp add: Polyline_def type_string_def curve_types_def)

lemma not_curve_point_object: "\<not> is_curve (VBase point_object)"
  by (simp add: point_object_def type_string_def curve_types_def)

lemma curve_of_Line: "curve_of (VBase (Line s e)) = Some (Line s e)"
  using is_curve_Line by simp

lemma curve_of_Polyline: "curve_of (VBase (Polyline ps)) = Some (Polyline ps)"
  using is_curve_Polyline by simp

lemma curve_of_point_object: "curve_of (VBase point_object) = None"
  using not_curve_point_object by simp

lemma points_Line: "get_curve_points (Line s e) = [s, e]"
  by (simp add: Line_def get_curve_points_def)

lemma points_Polyline: "get_curve_points (Polyline ps) = ps"
  by (simp add: Polyline_def get_curve_points_def)


text \<open>
  The two assertions of the repository's \<^verbatim>\<open>test_points_are_coplanar\<close>, at the default
  tolerance.
\<close>

lemma square_points_coplanar: "points_are_coplanar (1 / 100) square_points = Inr True"
  by (simp add: points_are_coplanar_def square_points_def plane_normal_def vsub_def
        vlength_def plane_distance_def)

lemma lifted_points_not_coplanar: "points_are_coplanar (1 / 100) lifted_points = Inr False"
  by (simp add: points_are_coplanar_def lifted_points_def plane_normal_def vsub_def
        vlength_def plane_distance_def)

text \<open>The assertions of the repository's \<^verbatim>\<open>test_metadata_extraction\<close>.\<close>

lemma test_metadata_extraction:
  "map_of (extract_metadata test_boundary) ''area'' = Some (VNum (201 / 2))
   \<and> map_of (extract_metadata test_boundary) ''name'' = Some (VStr ''Test Area'')
   \<and> map_of (extract_metadata test_boundary) ''number'' = Some (VStr ''001'')
   \<and> map_of (extract_metadata test_boundary) ''level'' = Some (VStr ''Level 1'')"
  by (simp add: extract_metadata_def test_boundary_def preserve_attrs_def)

text \<open>
  A boundary that passes the three gates of the loop body (some curve, coplanar, area
  not below the threshold) gets its curves tessellated as one loop, and no failure entry.
\<close>

lemma process_boundary_passed:
  assumes "extract_curves_from_boundary boundary = curves" and "curves \<noteq> []"
    and "curves_are_coplanar (surface_tolerance function_inputs) curves = Inr True"
    and "area_below_threshold (extract_metadata boundary) (min_area_threshold function_inputs)
         = Inr False"
  shows "process_boundary function_inputs i boundary st =
           st\<lparr>converted_surfaces :=
                converted_surfaces st @
                (case create_surface_from_curves curves (extract_metadata boundary) of
                   None \<Rightarrow> [] | Some surface \<Rightarrow> [surface])\<rparr>"
  using assms
  by (simp add: process_boundary_def group_curves_into_loops_def Let_def split: option.splits)

lemma few_points_coplanar:
  "length (concat (map get_curve_points curves)) < 3 \<Longrightarrow>
     curves_are_coplanar tolerance curves = Inr True"
  by (simp add: curves_are_coplanar_def)

lemma few_points_no_surface:
  "length (concat (map get_curve_points curves)) < 3 \<Longrightarrow>
     create_surface_from_curves curves metadata = None"
  by (simp add: create_surface_from_curves_def)

section \<open>Planarity of points (claims C1 and C8)\<close>








text \<open>
  Claim C8. For a list of fewer than four points, \<^verbatim>\<open>points_are_coplanar\<close> answers planar,
  at every tolerance.
\<close>

theorem points_are_coplanar_few_points:
  "length points < 4 \<Longrightarrow> points_are_coplanar tolerance points = Inr True"
  by (simp add: points_are_coplanar_def)

theorem points_are_coplanar_few_points_witness:
  "length [Point 0 0 0, Point 1 0 0, Point 0 1 5] < 4
   \<and> points_are_coplanar (1 / 100) [Point 0 0 0, Point 1 0 0, Point 0 1 5] = Inr True"
  using points_are_coplanar_few_points [of "[Point 0 0 0, Point 1 0 0, Point 0 1 5]" "1 / 100"]
  by simp

section \<open>The gate over curves (claim C10)\<close>

text \<open>
  Claim C10. \<^verbatim>\<open>curves_are_coplanar\<close> answers planar for every list of fewer than two
  curves, whatever the points of the curve are.
\<close>

theorem curves_are_coplanar_single_curve:
  "length curves < 2 \<Longrightarrow> curves_are_coplanar tolerance curves = Inr True"
  by (simp add: curves_are_coplanar_def)

text \<open>
  One polyline through the lifted square passes the gate, although its own points are
  not coplanar at that tolerance.
\<close>

theorem curves_are_coplanar_single_curve_witness:
  "length [Polyline lifted_points] < 2
   \<and> curves_are_coplanar (1 / 100) [Polyline lifted_points] = Inr True
   \<and> points_are_coplanar (1 / 100) (get_curve_points (Polyline lifted_points)) = Inr False"
  using curves_are_coplanar_single_curve [of "[Polyline lifted_points]" "1 / 100"]
    lifted_points_not_coplanar
  by (simp add: points_Polyline)

section \<open>Curve extraction (claim C6)\<close>

text \<open>The first assertion of the repository's \<^verbatim>\<open>test_curve_detection\<close> is \<open>is_curve_Line\<close>,
  the second is \<open>not_curve_point_object\<close>.\<close>

lemma starts_with_iff: "starts_with needle hay \<longleftrightarrow> (\<exists>after. hay = needle @ after)"
  by (induction needle hay rule: starts_with.induct) auto

lemma str_contains_iff:
  "str_contains needle hay \<longleftrightarrow> (\<exists>before after. hay = before @ needle @ after)"
proof (induction hay)
  case Nil
  then show ?case by auto
next
  case (Cons d ds)
  show ?case
  proof
    assume "str_contains needle (d # ds)"
    then consider "starts_with needle (d # ds)" | "str_contains needle ds" by auto
    then show "\<exists>before after. d # ds = before @ needle @ after"
    proof cases
      case 1
      then obtain after where "d # ds = needle @ after" by (auto simp: starts_with_iff)
      then have "d # ds = [] @ needle @ after" by simp
      then show ?thesis by blast
    next
      case 2
      with Cons obtain before after where "ds = before @ needle @ after" by auto
      then have "d # ds = (d # before) @ needle @ after" by simp
      then show ?thesis by blast
    qed
  next
    assume "\<exists>before after. d # ds = before @ needle @ after"
    then obtain before after where e: "d # ds = before @ needle @ after" by auto
    show "str_contains needle (d # ds)"
    proof (cases before)
      case Nil
      with e have "starts_with needle (d # ds)" by (auto simp: starts_with_iff)
      then show ?thesis by simp
    next
      case (Cons b bs)
      with e have "ds = bs @ needle @ after" by simp
      with Cons.IH have "str_contains needle ds" by blast
      then show ?thesis by simp
    qed
  qed
qed

lemma is_curve_iff:
  "is_curve (VBase c) \<longleftrightarrow>
     (\<exists>curve_type \<in> set [''Line'', ''Polyline'', ''Curve'', ''Arc'', ''Circle'', ''Ellipse''].
        \<exists>s before after. speckle_type c = Some s \<and> s = before @ curve_type @ after)"
  by (cases "speckle_type c")
     (simp_all add: curve_types_def type_string_def str_contains_iff)

lemma curve_of_eq_Some: "curve_of v = Some c \<longleftrightarrow> v = VBase c \<and> is_curve (VBase c)"
  by (cases v) (auto simp del: is_curve.simps)

lemma set_map_filter: "y \<in> set (List.map_filter f xs) \<longleftrightarrow> (\<exists>x \<in> set xs. f x = Some y)"
  by (induction xs) (auto split: option.splits)

lemma set_curves_of_attr:
  "c \<in> set (curves_of_attr v) \<longleftrightarrow>
     is_curve (VBase c) \<and> (v = VBase c \<or> (\<exists>vs. v = VList vs \<and> VBase c \<in> set vs))"
proof (cases v)
  case (VList vs)
  then show ?thesis by (auto simp: set_map_filter curve_of_eq_Some simp del: is_curve.simps)
next
  case (VBase obj)
  then show ?thesis by (auto simp del: is_curve.simps)
qed simp_all

lemma set_extract:
  "c \<in> set (extract_curves_from_boundary boundary) \<longleftrightarrow>
      (\<exists>attr_name \<in> set possible_curve_attrs. \<exists>v. map_of boundary attr_name = Some v
          \<and> c \<in> set (curves_of_attr v))"
proof -
  have "c \<in> set (case map_of boundary a of None \<Rightarrow> [] | Some v \<Rightarrow> curves_of_attr v) \<longleftrightarrow>
          (\<exists>v. map_of boundary a = Some v \<and> c \<in> set (curves_of_attr v))" for a
    by (cases "map_of boundary a") simp_all
  then show ?thesis by (simp add: extract_curves_from_boundary_def)
qed

text \<open>
  Claim C6, as stated, fails. The claim says that an object is returned only if its kind
  is one of the six curve kinds, and that every other kind is ignored. An object of type
  \<^verbatim>\<open>Objects.BuiltElements.GridLine\<close> has the kind \<^verbatim>\<open>GridLine\<close>, which is none of the six,
  and the extractor returns it: the source tests whether the name of a curve kind occurs
  in the type string.
\<close>

theorem grid_line_counterexample:
  "declared_kind (type_string grid_line) = ''GridLine''
   \<and> ''GridLine'' \<notin> set spec_curve_kinds \<and> ''GridLine'' \<notin> set curve_types
   \<and> extract_curves_from_boundary grid_boundary = [grid_line]"
proof -
  have "is_curve (VBase grid_line)"
    by (simp add: grid_line_def type_string_def curve_types_def)
  then have c: "curve_of (VBase grid_line) = Some grid_line" by simp
  have e: "extract_curves_from_boundary grid_boundary = [grid_line]"
    by (simp add: extract_curves_from_boundary_def possible_curve_attrs_def grid_boundary_def
          List.map_filter_def c del: curve_of.simps(1))
  have k: "declared_kind (type_string grid_line) = ''GridLine''"
    by (simp add: declared_kind_def type_string_def grid_line_def)
  show ?thesis using e k by (simp add: spec_curve_kinds_def curve_types_def)
qed

text \<open>
  Claim C6, amended. The extractor returns an object exactly when it is a \<^verbatim>\<open>Base\<close>
  object held by one of the five probed attributes, as the value of the attribute or as a
  member of its list, and its \<^verbatim>\<open>speckle_type\<close> string contains one of the names
  \<^verbatim>\<open>Line\<close>, \<^verbatim>\<open>Polyline\<close>, \<^verbatim>\<open>Curve\<close>, \<^verbatim>\<open>Arc\<close>, \<^verbatim>\<open>Circle\<close>, \<^verbatim>\<open>Ellipse\<close> as a substring.
  Every other object is left out in silence: the function is total and has no error to
  raise.
\<close>

theorem extract_curves_characterised:
  "c \<in> set (extract_curves_from_boundary boundary) \<longleftrightarrow>
     (\<exists>attr_name \<in> set [''curves'', ''outline'', ''boundary'', ''geometry'', ''displayValue''].
         map_of boundary attr_name = Some (VBase c)
       \<or> (\<exists>vs. map_of boundary attr_name = Some (VList vs) \<and> VBase c \<in> set vs))
     \<and> (\<exists>curve_type \<in> set [''Line'', ''Polyline'', ''Curve'', ''Arc'', ''Circle'', ''Ellipse''].
          \<exists>s before after. speckle_type c = Some s \<and> s = before @ curve_type @ after)"
proof -
  have "c \<in> set (extract_curves_from_boundary boundary) \<longleftrightarrow>
      (\<exists>attr_name \<in> set possible_curve_attrs. \<exists>v. map_of boundary attr_name = Some v
          \<and> c \<in> set (curves_of_attr v))"
    by (rule set_extract)
  also have "\<dots> \<longleftrightarrow>
     (\<exists>attr_name \<in> set possible_curve_attrs.
         map_of boundary attr_name = Some (VBase c)
       \<or> (\<exists>vs. map_of boundary attr_name = Some (VList vs) \<and> VBase c \<in> set vs))
     \<and> is_curve (VBase c)"
    unfolding set_curves_of_attr by blast
  finally show ?thesis
    unfolding is_curve_iff by (simp only: possible_curve_attrs_def)
qed

text \<open>
  Of a line, a point object and a string under \<^verbatim>\<open>curves\<close>, the line is returned and the
  point object is not.
\<close>

theorem extract_curves_characterised_witness:
  "Line (Point 0 0 0) (Point 1 0 0) \<in> set (extract_curves_from_boundary mixed_boundary)
   \<and> point_object \<notin> set (extract_curves_from_boundary mixed_boundary)
   \<and> map_of mixed_boundary ''curves'' =
       Some (VList [VBase (Line (Point 0 0 0) (Point 1 0 0)), VBase point_object, VStr ''Line''])
   \<and> speckle_type (Line (Point 0 0 0) (Point 1 0 0)) = Some (''Objects.Geometry.'' @ ''Line'' @ [])
   \<and> speckle_type point_object = Some ''Objects.Geometry.Point''"
proof -
  have m: "map_of mixed_boundary ''curves'' =
       Some (VList [VBase (Line (Point 0 0 0) (Point 1 0 0)), VBase point_object, VStr ''Line''])"
    by (simp add: mixed_boundary_def)
  have s: "speckle_type (Line (Point 0 0 0) (Point 1 0 0)) = Some (''Objects.Geometry.'' @ ''Line'' @ [])"
    by (simp add: Line_def)
  have a: "\<exists>attr_name \<in> set [''curves'', ''outline'', ''boundary'', ''geometry'', ''displayValue''].
         map_of mixed_boundary attr_name = Some (VBase (Line (Point 0 0 0) (Point 1 0 0)))
       \<or> (\<exists>vs. map_of mixed_boundary attr_name = Some (VList vs)
              \<and> VBase (Line (Point 0 0 0) (Point 1 0 0)) \<in> set vs)"
    using m by simp
  have b: "\<exists>curve_type \<in> set [''Line'', ''Polyline'', ''Curve'', ''Arc'', ''Circle'', ''Ellipse''].
          \<exists>s before after. speckle_type (Line (Point 0 0 0) (Point 1 0 0)) = Some s
             \<and> s = before @ curve_type @ after"
    using s by (intro bexI [of _ "''Line''"]) (blast, simp)
  have "Line (Point 0 0 0) (Point 1 0 0) \<in> set (extract_curves_from_boundary mixed_boundary)"
    using extract_curves_characterised [THEN iffD2, OF conjI [OF a b]] .
  moreover have "point_object \<notin> set (extract_curves_from_boundary mixed_boundary)"
    using not_curve_point_object unfolding extract_curves_characterised is_curve_iff [symmetric] by blast
  moreover have "speckle_type point_object = Some ''Objects.Geometry.Point''"
    by (simp add: point_object_def)
  ultimately show ?thesis using m s by blast
qed


section \<open>Loop grouping is independent of the order (claim C7)\<close>

lemma loop_point_set_Union: "loop_point_set loop = (\<Union>c \<in> set loop. set (get_curve_points c))"
  by (simp add: loop_point_set_def)

text \<open>
  Claim C7. Grouping a permutation of a curve list gives the same set of loops as
  grouping the list itself, the loops being compared as point sets.
\<close>

theorem grouping_order_independent:
  assumes "mset curves' = mset curves"
  shows "loop_point_set ` set (group_curves_into_loops curves') =
         loop_point_set ` set (group_curves_into_loops curves)"
proof -
  from assms have s: "set curves' = set curves" by (rule mset_eq_setD)
  from assms have "curves' = [] \<longleftrightarrow> curves = []" by (metis mset_zero_iff)
  with s show ?thesis by (simp add: group_curves_into_loops_def loop_point_set_Union)
qed

text \<open>The open chain and its reverse: one loop each, with the same four points.\<close>

theorem grouping_order_independent_witness:
  "mset (rev open_chain) = mset open_chain
   \<and> loop_point_set ` set (group_curves_into_loops (rev open_chain)) =
     loop_point_set ` set (group_curves_into_loops open_chain)
   \<and> loop_point_set ` set (group_curves_into_loops open_chain) =
     {{Point 0 0 0, Point 1 0 0, Point 1 1 0, Point 0 1 0}}"
proof -
  have h: "mset (rev open_chain) = mset open_chain" by simp
  have "loop_point_set ` set (group_curves_into_loops open_chain) =
     {{Point 0 0 0, Point 1 0 0, Point 1 1 0, Point 0 1 0}}"
    by (auto simp: group_curves_into_loops_def loop_point_set_def open_chain_def points_Line)
  with grouping_order_independent [OF h] h show ?thesis by simp
qed

section \<open>Metadata propagation is idempotent (claim C9)\<close>

lemma transfer_fixed:
  "(\<forall>(k, v) \<in> set md. map_of m k = Some v) \<Longrightarrow> transfer_metadata md m = m"
  unfolding transfer_metadata_def
  by (induction md arbitrary: m) (auto simp: setattr_def update_triv)

lemma map_of_transfer:
  "map_of (transfer_metadata md m) = map_of m ++ map_of (rev md)"
  unfolding transfer_metadata_def
  by (induction md arbitrary: m)
     (auto simp: setattr_def update_conv' fun_eq_iff map_add_def split: option.splits)

lemma dict_update_distinct:
  "distinct (map fst md) \<Longrightarrow> distinct (map fst (dict_update md d))"
  unfolding dict_update_def
  by (induction d arbitrary: md) (auto simp: distinct_update)

lemma preserve_distinct:
  "distinct (map fst md) \<Longrightarrow>
   distinct (map fst (foldl (\<lambda>md attr. case map_of boundary attr of
                                None \<Rightarrow> md
                              | Some v \<Rightarrow> AList.update attr v md) md attrs))"
  by (induction attrs arbitrary: md) (auto simp: distinct_update split: option.splits)

lemma extract_metadata_distinct: "distinct (map fst (extract_metadata boundary))"
  using preserve_distinct [of "[]"]
  by (auto simp: extract_metadata_def Let_def dict_update_distinct split: option.splits pyval.splits)

lemma transfer_twice:
  assumes "distinct (map fst md)"
  shows "transfer_metadata md (transfer_metadata md m) = transfer_metadata md m"
proof (rule transfer_fixed, clarify)
  fix k v assume "(k, v) \<in> set md"
  with assms have "map_of (rev md) k = Some v" by (simp add: rev_map [symmetric])
  then show "map_of (transfer_metadata md m) k = Some v"
    by (simp add: map_of_transfer map_add_def)
qed

text \<open>
  Claim C9. Extracting the metadata of a boundary and transferring it onto a mesh a
  second time leaves the mesh as the first transfer made it: the same keys in the same
  places, with the same values.
\<close>

theorem metadata_propagation_idempotent:
  "transfer_metadata (extract_metadata boundary)
     (transfer_metadata (extract_metadata boundary) mesh) =
   transfer_metadata (extract_metadata boundary) mesh"
  by (rule transfer_twice [OF extract_metadata_distinct])

text \<open>
  A boundary with an area, a name and two parameters, transferred twice onto an empty
  mesh.
\<close>

theorem metadata_propagation_idempotent_witness:
  "extract_metadata room_boundary =
     [(''area'', VNum 100), (''name'', VStr ''Lobby''),
      (''parameters'', VDict [(''name'', VStr ''Lobby''), (''fire'', VInt 2)]),
      (''fire'', VInt 2)]
   \<and> transfer_metadata (extract_metadata room_boundary)
        (transfer_metadata (extract_metadata room_boundary) (Mesh [] [])) =
       [(''vertices'', VList []), (''faces'', VList []),
        (''area'', VNum 100), (''name'', VStr ''Lobby''),
        (''parameters'', VDict [(''name'', VStr ''Lobby''), (''fire'', VInt 2)]),
        (''fire'', VInt 2)]"
proof -
  have md: "extract_metadata room_boundary =
     [(''area'', VNum 100), (''name'', VStr ''Lobby''),
      (''parameters'', VDict [(''name'', VStr ''Lobby''), (''fire'', VInt 2)]),
      (''fire'', VInt 2)]"
    by (simp add: extract_metadata_def room_boundary_def preserve_attrs_def dict_update_def)
  have once: "transfer_metadata (extract_metadata room_boundary) (Mesh [] []) =
       [(''vertices'', VList []), (''faces'', VList []),
        (''area'', VNum 100), (''name'', VStr ''Lobby''),
        (''parameters'', VDict [(''name'', VStr ''Lobby''), (''fire'', VInt 2)]),
        (''fire'', VInt 2)]"
    unfolding md by (simp add: transfer_metadata_def setattr_def Mesh_def)
  from metadata_propagation_idempotent [of room_boundary "Mesh [] []"] md once
  show ?thesis by simp
qed

section \<open>Tessellation of a convex quadrilateral (claim C3)\<close>

























section \<open>Loop grouping and unclosed chains (claim C2)\<close>

lemma extract_open: "extract_curves_from_boundary open_boundary = open_chain"
  by (simp add: extract_curves_from_boundary_def possible_curve_attrs_def open_boundary_def
        open_chain_def List.map_filter_def curve_of_Line del: curve_of.simps(1))

lemma open_chain_coplanar: "curves_are_coplanar (1 / 100) open_chain = Inr True"
  by (simp add: curves_are_coplanar_def open_chain_def points_Line points_are_coplanar_def
        plane_normal_def vsub_def vlength_def)

lemma open_metadata: "extract_metadata open_boundary = []"
  by (simp add: extract_metadata_def preserve_attrs_def open_boundary_def)

lemma open_chain_surface:
  "create_surface_from_curves open_chain [] =
     Some [(''vertices'',
            VList [VNum 0, VNum 0, VNum 0, VNum 1, VNum 0, VNum 0, VNum 1, VNum 0, VNum 0,
                   VNum 1, VNum 1, VNum 0, VNum 1, VNum 1, VNum 0, VNum 0, VNum 1, VNum 0]),
           (''faces'',
            VList [VInt 0, VInt 1, VInt 2, VInt 0, VInt 2, VInt 3, VInt 0, VInt 3, VInt 4,
                   VInt 0, VInt 4, VInt 5]),
           (''speckle_type'', VStr ''Objects.Geometry.Mesh''),
           (''converted_from'', VStr ''AreaBoundary'')]"
  by (simp add: create_surface_from_curves_def open_chain_def points_Line
        create_mesh_from_points_def mesh_vertices_def mesh_faces_def Mesh_def
        transfer_metadata_def setattr_def upt_rec)

lemma open_not_closed: "\<not> chain_closed (1 / 100) open_chain"
  by (simp add: chain_closed_def open_chain_def points_Line vsub_def vlength_def)

lemma automate_single:
  "automate_function function_inputs [boundary] =
     process_boundary function_inputs 0 boundary initial_state"
  by (simp add: automate_function_def initial_state_def enumerate_eq_zip)

text \<open>
  Claim C2, as stated, fails. The claim says that an unclosed chain is reported as a
  malformed loop and kept out of the output. Three sides of a square do not close, yet
  grouping returns them as a loop, the pipeline tessellates their six pooled points into
  a mesh and records no failure.
\<close>

theorem unclosed_chain_counterexample:
  "\<not> chain_closed (1 / 100) open_chain
   \<and> group_curves_into_loops open_chain = [open_chain]
   \<and> automate_function default_inputs [open_boundary] =
       \<lparr>converted_surfaces =
          [[(''vertices'',
             VList [VNum 0, VNum 0, VNum 0, VNum 1, VNum 0, VNum 0, VNum 1, VNum 0, VNum 0,
                    VNum 1, VNum 1, VNum 0, VNum 1, VNum 1, VNum 0, VNum 0, VNum 1, VNum 0]),
            (''faces'',
             VList [VInt 0, VInt 1, VInt 2, VInt 0, VInt 2, VInt 3, VInt 0, VInt 3, VInt 4,
                    VInt 0, VInt 4, VInt 5]),
            (''speckle_type'', VStr ''Objects.Geometry.Mesh''),
            (''converted_from'', VStr ''AreaBoundary'')]],
        failed_conversions = []\<rparr>"
proof -
  have g: "group_curves_into_loops open_chain = [open_chain]"
    by (simp add: group_curves_into_loops_def open_chain_def)
  have a: "area_below_threshold (extract_metadata open_boundary)
             (min_area_threshold default_inputs) = Inr False"
    by (simp add: open_metadata area_below_threshold_def)
  have c: "curves_are_coplanar (surface_tolerance default_inputs) open_chain = Inr True"
    by (simp add: default_inputs_def open_chain_coplanar)
  have ne: "open_chain \<noteq> []" by (simp add: open_chain_def)
  show ?thesis
    using open_not_closed g
    by (simp add: automate_single process_boundary_passed [OF extract_open ne c a]
          open_metadata open_chain_surface initial_state_def)
qed

text \<open>
  Claim C2, amended. Loop grouping does no connectivity analysis: it returns every
  non-empty curve list, closed or not, as one loop of all the curves. For a boundary that
  has curves, passes the planarity gate and is not under the area threshold, the pipeline
  appends no failure entry, and appends the one mesh made of the pooled points of all
  the curves (no mesh when there are fewer than three points).
\<close>

theorem grouping_single_loop:
  assumes "extract_curves_from_boundary boundary = curves" and "curves \<noteq> []"
    and "curves_are_coplanar (surface_tolerance function_inputs) curves = Inr True"
    and "area_below_threshold (extract_metadata boundary) (min_area_threshold function_inputs)
         = Inr False"
  shows "group_curves_into_loops curves = [curves]
       \<and> failed_conversions (process_boundary function_inputs i boundary st) = failed_conversions st
       \<and> converted_surfaces (process_boundary function_inputs i boundary st) =
           converted_surfaces st @
           (case create_surface_from_curves curves (extract_metadata boundary) of
              None \<Rightarrow> [] | Some surface \<Rightarrow> [surface])"
  using assms(2) by (simp add: process_boundary_passed [OF assms] group_curves_into_loops_def)

theorem grouping_single_loop_witness:
  "extract_curves_from_boundary open_boundary = open_chain \<and> open_chain \<noteq> []
   \<and> curves_are_coplanar (surface_tolerance default_inputs) open_chain = Inr True
   \<and> area_below_threshold (extract_metadata open_boundary) (min_area_threshold default_inputs)
       = Inr False
   \<and> group_curves_into_loops open_chain = [open_chain]
   \<and> failed_conversions (process_boundary default_inputs 0 open_boundary initial_state) = []
   \<and> length (converted_surfaces (process_boundary default_inputs 0 open_boundary initial_state)) = 1"
proof -
  have a: "area_below_threshold (extract_metadata open_boundary)
             (min_area_threshold default_inputs) = Inr False"
    by (simp add: open_metadata area_below_threshold_def)
  have c: "curves_are_coplanar (surface_tolerance default_inputs) open_chain = Inr True"
    by (simp add: default_inputs_def open_chain_coplanar)
  have ne: "open_chain \<noteq> []" by (simp add: open_chain_def)
  from grouping_single_loop [OF extract_open ne c a, of 0 initial_state] a c ne extract_open
  show ?thesis by (simp add: open_metadata open_chain_surface initial_state_def)
qed


section \<open>Degenerate polygons (claim C4)\<close>

lemma collapsed_surface:
  "create_surface_from_curves [collapsed_polyline] [] =
     Some [(''vertices'', VList [VNum 0, VNum 0, VNum 0, VNum 0, VNum 0, VNum 0, VNum 0, VNum 0, VNum 0]),
           (''faces'', VList [VInt 0, VInt 1, VInt 2]),
           (''speckle_type'', VStr ''Objects.Geometry.Mesh''),
           (''converted_from'', VStr ''AreaBoundary'')]"
  by (simp add: create_surface_from_curves_def collapsed_polyline_def points_Polyline
        create_mesh_from_points_def mesh_vertices_def mesh_faces_def Mesh_def
        transfer_metadata_def setattr_def upt_rec)

lemma extract_one_line:
  "extract_curves_from_boundary one_line_boundary = [Line (Point 0 0 0) (Point 1 0 0)]"
  by (simp add: extract_curves_from_boundary_def possible_curve_attrs_def one_line_boundary_def
        List.map_filter_def curve_of_Line del: curve_of.simps(1))

lemma one_line_metadata: "extract_metadata one_line_boundary = []"
  by (simp add: extract_metadata_def preserve_attrs_def one_line_boundary_def)

text \<open>
  Claim C4, as stated, fails. The claim says that a polygon with fewer than three
  distinct vertices after merging gives no mesh and is recorded as a failure of that
  loop. A polyline of three coinciding points has one distinct vertex and still gets a
  mesh with one face; a boundary of one line (two points) gets no mesh, and no failure
  entry either.
\<close>

theorem degenerate_polygon_counterexample:
  "length (remdups (concat (map get_curve_points [collapsed_polyline]))) = 1
   \<and> create_surface_from_curves [collapsed_polyline] [] =
     Some [(''vertices'', VList [VNum 0, VNum 0, VNum 0, VNum 0, VNum 0, VNum 0, VNum 0, VNum 0, VNum 0]),
           (''faces'', VList [VInt 0, VInt 1, VInt 2]),
           (''speckle_type'', VStr ''Objects.Geometry.Mesh''),
           (''converted_from'', VStr ''AreaBoundary'')]
   \<and> length (remdups (concat (map get_curve_points (extract_curves_from_boundary one_line_boundary)))) = 2
   \<and> automate_function default_inputs [one_line_boundary] =
        \<lparr>converted_surfaces = [], failed_conversions = []\<rparr>"
proof -
  have a: "area_below_threshold (extract_metadata one_line_boundary)
             (min_area_threshold default_inputs) = Inr False"
    by (simp add: one_line_metadata area_below_threshold_def)
  have h: "length (concat (map get_curve_points [Line (Point 0 0 0) (Point 1 0 0)])) < 3"
    by (simp add: points_Line)
  have p: "process_boundary default_inputs 0 one_line_boundary initial_state = initial_state"
    by (simp add: process_boundary_passed [OF extract_one_line _ few_points_coplanar [OF h] a]
          few_points_no_surface [OF h])
  have d: "length (remdups (concat (map get_curve_points [collapsed_polyline]))) = 1"
    by (simp add: collapsed_polyline_def points_Polyline)
  have e: "length (remdups (concat (map get_curve_points
             (extract_curves_from_boundary one_line_boundary)))) = 2"
    by (simp add: extract_one_line points_Line)
  show ?thesis
    using p d e collapsed_surface by (simp add: automate_single initial_state_def)
qed

text \<open>
  Claim C4, amended. For every loop whose curves pool fewer than three points, counted
  as they come with no merging, surface creation gives no mesh; the loop is passed over
  in silence: for a boundary with these curves that is not stopped by the area test, the
  lists of surfaces and of failures stay as they were, and nothing is raised.
\<close>

theorem few_points_no_mesh:
  assumes "length (concat (map get_curve_points curves)) < 3"
  shows "create_surface_from_curves curves metadata = None
       \<and> (extract_curves_from_boundary boundary = curves \<and> curves \<noteq> []
            \<and> area_below_threshold (extract_metadata boundary) (min_area_threshold function_inputs)
                = Inr False
          \<longrightarrow> process_boundary function_inputs i boundary st = st)"
  using few_points_no_surface [OF assms]
  by (auto simp: process_boundary_passed [OF _ _ few_points_coplanar [OF assms]])

theorem few_points_no_mesh_witness:
  "length (concat (map get_curve_points [Line (Point 0 0 0) (Point 1 0 0)])) < 3
   \<and> create_surface_from_curves [Line (Point 0 0 0) (Point 1 0 0)] [] = None
   \<and> extract_curves_from_boundary one_line_boundary = [Line (Point 0 0 0) (Point 1 0 0)]
   \<and> area_below_threshold (extract_metadata one_line_boundary) (min_area_threshold default_inputs)
       = Inr False
   \<and> process_boundary default_inputs 0 one_line_boundary initial_state = initial_state"
proof -
  have h: "length (concat (map get_curve_points [Line (Point 0 0 0) (Point 1 0 0)])) < 3"
    by (simp add: points_Line)
  have a: "area_below_threshold (extract_metadata one_line_boundary)
             (min_area_threshold default_inputs) = Inr False"
    by (simp add: one_line_metadata area_below_threshold_def)
  from few_points_no_mesh [OF h, of "[]" one_line_boundary default_inputs 0 initial_state]
    h a extract_one_line
  show ?thesis by simp
qed

section \<open>The minimum-area filter (claim C5)\<close>

lemma small_empty_extract: "extract_curves_from_boundary small_empty_boundary = []"
  by (simp add: extract_curves_from_boundary_def possible_curve_attrs_def small_empty_boundary_def)

lemma small_empty_metadata: "extract_metadata small_empty_boundary = [(''area'', VNum (5 / 100))]"
  by (simp add: extract_metadata_def preserve_attrs_def small_empty_boundary_def)

lemma small_square_extract:
  "extract_curves_from_boundary small_square_boundary = [Polyline square_points]"
  by (simp add: extract_curves_from_boundary_def possible_curve_attrs_def
        small_square_boundary_def curve_of_Polyline del: curve_of.simps(1))

lemma small_square_metadata:
  "extract_metadata small_square_boundary = [(''area'', VNum (5 / 100))]"
  by (simp add: extract_metadata_def preserve_attrs_def small_square_boundary_def)

text \<open>
  Claim C5, as stated, fails. The claim says that a boundary whose area is below the
  threshold gets no failure entry. The area test comes after the test for curves and the
  planarity gate: a boundary of area 0.05 without curves is reported with
  \<^verbatim>\<open>No curves found\<close> at the threshold 0.1.
\<close>

theorem area_filter_counterexample:
  "area_below_threshold (extract_metadata small_empty_boundary)
     (min_area_threshold default_inputs) = Inr True
   \<and> automate_function default_inputs [small_empty_boundary] =
       \<lparr>converted_surfaces = [], failed_conversions = [NoCurvesFound 0]\<rparr>"
  by (simp add: automate_single process_boundary_def small_empty_extract small_empty_metadata
        area_below_threshold_def default_inputs_def initial_state_def)

text \<open>
  Claim C5, amended. For every boundary whose metadata holds a numeric area below
  \<^verbatim>\<open>min_area_threshold\<close>, the pipeline adds no mesh; and when the boundary has at least
  one curve and passes the planarity gate, it appends no failure entry either: the state
  is left as it was.
\<close>

theorem area_filter_silent:
  assumes "area_below_threshold (extract_metadata boundary) (min_area_threshold function_inputs)
           = Inr True"
  shows "converted_surfaces (process_boundary function_inputs i boundary st) = converted_surfaces st
       \<and> (extract_curves_from_boundary boundary \<noteq> []
            \<and> curves_are_coplanar (surface_tolerance function_inputs)
                 (extract_curves_from_boundary boundary) = Inr True
          \<longrightarrow> process_boundary function_inputs i boundary st = st)"
  using assms by (auto simp: process_boundary_def Let_def split: sum.splits bool.splits)

theorem area_filter_silent_witness:
  "area_below_threshold (extract_metadata small_square_boundary)
     (min_area_threshold default_inputs) = Inr True
   \<and> extract_curves_from_boundary small_square_boundary \<noteq> []
   \<and> curves_are_coplanar (surface_tolerance default_inputs)
        (extract_curves_from_boundary small_square_boundary) = Inr True
   \<and> process_boundary default_inputs 0 small_square_boundary initial_state = initial_state"
proof -
  have a: "area_below_threshold (extract_metadata small_square_boundary)
     (min_area_threshold default_inputs) = Inr True"
    by (simp add: small_square_metadata area_below_threshold_def default_inputs_def)
  have c: "curves_are_coplanar (surface_tolerance default_inputs)
        (extract_curves_from_boundary small_square_boundary) = Inr True"
    by (simp add: small_square_extract curves_are_coplanar_def)
  from area_filter_silent [OF a, of 0 initial_state] a c show ?thesis
    by (simp add: small_square_extract)
qed


end
